theory Spec2Isabelle
  imports Main "HOL-Library.Sublist"
begin

section \<open>JavaScript values, objects and errors\<close>

text \<open>
  The request view and the configuration follow the data model of the package: the three
  members \<open>query\<close>, \<open>headers\<close> and \<open>body\<close> of the request object are each either absent
  or a plain object whose own properties are strings; the two members of the
  configuration object are each either absent or a string. A map holds the own
  properties of an object. Strings are lists of characters, the empty list being the one
  falsy string.
\<close>

type_synonym dict = "string \<rightharpoonup> string"

record request =
  query :: "dict option"
  headers :: "dict option"
  body :: "dict option"

record config =
  authorizationHeaderKey :: "string option"
  cookieHeaderKey :: "string option"

text \<open>
  What an expression of the function evaluates to, and what a call returns. \<open>JObject\<close>
  stands for a function or an object: a truthy value that is not a string and has no
  method \<open>indexOf\<close>. The function meets such a value where a property read falls
  through to \<open>Object.prototype\<close>.
\<close>

datatype jsval = JUndefined | JNull | JString string | JObject

text \<open>
  What a call throws. The argument of \<open>ReferenceError\<close> is the unresolved identifier,
  that of \<open>TypeError\<close> the member that is not a function.
\<close>

datatype js_error = ReferenceError string | TypeError string

fun truthy :: "jsval \<Rightarrow> bool" where
  "truthy (JString s) = (s \<noteq> [])"
| "truthy JUndefined = False"
| "truthy JNull = False"
| "truthy JObject = True"

section \<open>The constants of \<open>index.js\<close>\<close>

definition BEARER_SCHEME :: string where
  "BEARER_SCHEME = ''Bearer''"

definition AUTHORIZATION_HEADER :: string where
  "AUTHORIZATION_HEADER = ''Authorization''"

definition COOKIE_HEADER :: string where
  "COOKIE_HEADER = ''Cookie''"

definition ACCESS_TOKEN_PARAMETER :: string where
  "ACCESS_TOKEN_PARAMETER = ''access_token''"

section \<open>The string and object operations the function uses\<close>

text \<open>
  The names every plain object inherits from \<open>Object.prototype\<close> (the language standard
  with its annex for browsers, as Node implements it). Each names a function, and
  \<open>__proto__\<close> the prototype object itself.
\<close>

definition objectPrototypeKeys :: "string list" where
  "objectPrototypeKeys =
     [''constructor'', ''hasOwnProperty'', ''isPrototypeOf'', ''propertyIsEnumerable'',
      ''toLocaleString'', ''toString'', ''valueOf'', ''__proto__'',
      ''__defineGetter__'', ''__defineSetter__'', ''__lookupGetter__'',
      ''__lookupSetter__'']"

text \<open>
  \<open>obj[key]\<close> on a plain object: the own property; without one, what the object inherits
  under that name; \<open>undefined\<close> otherwise.
\<close>

definition member :: "dict \<Rightarrow> string \<Rightarrow> jsval" where
  "member obj key =
     (case obj key of
        Some v \<Rightarrow> JString v
      | None \<Rightarrow> if key \<in> set objectPrototypeKeys then JObject else JUndefined)"

text \<open>\<open>obj ? obj[key] : null\<close>; an object is truthy, an absent one is not.\<close>

definition member_or_null :: "dict option \<Rightarrow> string \<Rightarrow> jsval" where
  "member_or_null obj key = (case obj of None \<Rightarrow> JNull | Some d \<Rightarrow> member d key)"

text \<open>
  \<open>String.prototype.indexOf\<close>: the least position at which the search string starts, or
  \<open>-1\<close>. The second function carries the position reached.
\<close>

fun indexOf_from :: "nat \<Rightarrow> string \<Rightarrow> string \<Rightarrow> int" where
  "indexOf_from i [] search = (if search = [] then int i else - 1)"
| "indexOf_from i (c # cs) search =
     (if prefix search (c # cs) then int i else indexOf_from (Suc i) cs search)"

definition indexOf :: "string \<Rightarrow> string \<Rightarrow> int" where
  "indexOf s search = indexOf_from 0 s search"

text \<open>
  \<open>String.prototype.split\<close> with a separator of one character: the fields between
  consecutive separators, empty fields included; the result is never empty.
\<close>

fun split :: "string \<Rightarrow> char \<Rightarrow> string list" where
  "split [] sep = [[]]"
| "split (c # cs) sep =
     (if c = sep then [] # split cs sep
      else (case split cs sep of
              [] \<Rightarrow> [[c]]
            | w # ws \<Rightarrow> (c # w) # ws))"

text \<open>\<open>array[i]\<close>: the element, or \<open>undefined\<close> past the end.\<close>

definition element :: "string list \<Rightarrow> nat \<Rightarrow> jsval" where
  "element ws i = (if i < length ws then JString (ws ! i) else JUndefined)"

section \<open>\<open>extractTokenFromRequest\<close>\<close>

text \<open>
  The body of the function names \<open>cookie\<close>, which \<open>index.js\<close> neither declares nor
  imports. The identifier is therefore resolved in the global scope when the cookie
  branch runs. The first parameter of the model is that binding: \<open>None\<close> when the global
  scope has no \<open>cookie\<close> (evaluating the identifier then throws a \<open>ReferenceError\<close>),
  and \<open>Some parse\<close> when the host has bound a module whose \<open>parse\<close> maps the value of
  the cookie header to an object of cookie values, or throws.
\<close>

type_synonym cookie_module = "jsval \<Rightarrow> js_error + dict"

text \<open>
  The condition of the first branch,
  \<^verbatim>\<open>authHeader && authHeader.indexOf(`${BEARER_SCHEME} `) !== -1\<close>:
  \<open>&&\<close> does not evaluate its right operand when the left one is falsy. On a function
  or an object \<open>authHeader.indexOf\<close> is \<open>undefined\<close>, and calling it throws.
\<close>

fun bearer_condition :: "jsval \<Rightarrow> js_error + bool" where
  "bearer_condition (JString a) =
     Inr (a \<noteq> [] \<and> indexOf a (BEARER_SCHEME @ '' '') \<noteq> - 1)"
| "bearer_condition JUndefined = Inr False"
| "bearer_condition JNull = Inr False"
| "bearer_condition JObject = Inl (TypeError ''indexOf'')"

text \<open>
  The value of the first branch, \<^verbatim>\<open>authHeader.split(' ')[1]\<close>. Reading \<open>split\<close> from
  \<open>undefined\<close> or \<open>null\<close> throws, and so does calling it on a function or an object;
  the condition of the branch lets strings through only.
\<close>

fun split_second :: "jsval \<Rightarrow> js_error + jsval" where
  "split_second (JString a) = Inr (element (split a CHR '' '') 1)"
| "split_second JUndefined = Inl (TypeError ''split'')"
| "split_second JNull = Inl (TypeError ''split'')"
| "split_second JObject = Inl (TypeError ''split'')"

text \<open>
  The two parameters are destructured with defaults: an omitted argument is \<open>{}\<close>, and
  a key that the configuration object does not carry takes its constant.
\<close>

definition requestOrDefault :: "request option \<Rightarrow> request" where
  "requestOrDefault requestObject =
     (case requestObject of
        None \<Rightarrow> \<lparr>query = None, headers = None, body = None\<rparr>
      | Some r \<Rightarrow> r)"

definition authKey :: "config option \<Rightarrow> string" where
  "authKey configObject =
     (case configObject of
        None \<Rightarrow> AUTHORIZATION_HEADER
      | Some c \<Rightarrow> (case authorizationHeaderKey c of
                    None \<Rightarrow> AUTHORIZATION_HEADER
                  | Some k \<Rightarrow> k))"

definition cookieKey :: "config option \<Rightarrow> string" where
  "cookieKey configObject =
     (case configObject of
        None \<Rightarrow> COOKIE_HEADER
      | Some c \<Rightarrow> (case cookieHeaderKey c of
                    None \<Rightarrow> COOKIE_HEADER
                  | Some k \<Rightarrow> k))"

text \<open>
  The cookie branch: \<^verbatim>\<open>cookies = cookie.parse(cookieHeader)\<close>, then the lookup of the
  parameter. \<open>cookie\<close> is evaluated first. The branch has no \<open>return\<close> for a falsy
  \<open>fromCookie\<close>, so the call then ends with \<open>undefined\<close>.
\<close>

fun cookieBranch :: "cookie_module option \<Rightarrow> jsval \<Rightarrow> js_error + jsval" where
  "cookieBranch None cookieHeader = Inl (ReferenceError ''cookie'')"
| "cookieBranch (Some parse) cookieHeader =
     (case parse cookieHeader of
        Inl thrown \<Rightarrow> Inl thrown
      | Inr cookies \<Rightarrow>
          (let fromCookie = member cookies ACCESS_TOKEN_PARAMETER
           in if truthy fromCookie then Inr fromCookie else Inr JUndefined))"

definition extractTokenFromRequest ::
  "cookie_module option \<Rightarrow> request option \<Rightarrow> config option \<Rightarrow> js_error + jsval" where
  "extractTokenFromRequest cookie requestObject configObject =
     (let req = requestOrDefault requestObject;
          authHeader = member_or_null (headers req) (authKey configObject);
          cookieHeader = member_or_null (headers req) (cookieKey configObject);
          fromQuery = member_or_null (query req) ACCESS_TOKEN_PARAMETER;
          fromBody = member_or_null (body req) ACCESS_TOKEN_PARAMETER
      in case bearer_condition authHeader of
           Inl thrown \<Rightarrow> Inl thrown
         | Inr True \<Rightarrow> split_second authHeader
         | Inr False \<Rightarrow>
             if truthy fromBody then Inr fromBody
             else if truthy fromQuery then Inr fromQuery
             else if truthy cookieHeader then cookieBranch cookie cookieHeader
             else Inr JNull)"

section \<open>Facts about \<open>indexOf\<close> and \<open>split\<close>\<close>

lemma indexOf_from_sublist: "indexOf_from i s search \<noteq> - 1 \<longleftrightarrow> sublist search s"
proof (induction s arbitrary: i)
  case Nil
  show ?case by simp
next
  case (Cons c cs)
  show ?case
  proof (cases "prefix search (c # cs)")
    case True
    then show ?thesis by simp
  next
    case False
    then show ?thesis using Cons.IH [of "Suc i"] by (simp add: sublist_Cons_right)
  qed
qed

lemma indexOf_sublist: "indexOf s search \<noteq> - 1 \<longleftrightarrow> sublist search s"
  by (simp add: indexOf_def indexOf_from_sublist)

lemma split_not_Nil: "split s sep \<noteq> []"
  by (induction s) (auto split: list.splits)

lemma split_no_sep: "sep \<notin> set w \<Longrightarrow> split w sep = [w]"
  by (induction w) auto

lemma split_append_sep: "sep \<notin> set w \<Longrightarrow> split (w @ sep # r) sep = w # split r sep"
  by (induction w) auto

lemma hd_split: "hd (split s sep) = takeWhile (\<lambda>c. c \<noteq> sep) s"
  by (induction s) (auto split: list.splits simp: split_not_Nil)

lemma split_decompose:
  "split s sep = takeWhile (\<lambda>c. c \<noteq> sep) s #
     (case dropWhile (\<lambda>c. c \<noteq> sep) s of [] \<Rightarrow> [] | _ # r \<Rightarrow> split r sep)"
  by (induction s) (auto split: list.splits)

lemma split_second_field:
  assumes "sep \<in> set s"
  shows "2 \<le> length (split s sep)"
    and "split s sep ! 1 = takeWhile (\<lambda>c. c \<noteq> sep) (tl (dropWhile (\<lambda>c. c \<noteq> sep) s))"
proof -
  from assms obtain r where d: "dropWhile (\<lambda>c. c \<noteq> sep) s = sep # r"
    by (metis (mono_tags, lifting) dropWhile_eq_Nil_conv hd_dropWhile list.collapse)
  have s: "split s sep = takeWhile (\<lambda>c. c \<noteq> sep) s # split r sep"
    using split_decompose [of s sep] d by simp
  obtain w ws where r: "split r sep = w # ws"
    using split_not_Nil [of r sep] by (cases "split r sep") auto
  show "2 \<le> length (split s sep)" using s r by simp
  have "w = takeWhile (\<lambda>c. c \<noteq> sep) r" using hd_split [of r sep] r by simp
  then show "split s sep ! 1 = takeWhile (\<lambda>c. c \<noteq> sep) (tl (dropWhile (\<lambda>c. c \<noteq> sep) s))"
    using s r d by simp
qed

lemma sublist_bearer_space:
  assumes "sublist (BEARER_SCHEME @ '' '') a"
  shows "a \<noteq> []" and "CHR '' '' \<in> set a"
proof -
  from assms obtain p s where a: "a = p @ (BEARER_SCHEME @ '' '') @ s"
    by (auto simp: sublist_def)
  show "a \<noteq> []" using a by simp
  show "CHR '' '' \<in> set a" using a by simp
qed

section \<open>The branches of the function\<close>

text \<open>
  The first branch: a header value that contains the scheme followed by a space decides
  the call, and the call returns element 1 of the split value, a string.
\<close>

lemma header_branch:
  assumes "h (authKey cfg) = Some a" and "sublist (BEARER_SCHEME @ '' '') a"
  shows "extractTokenFromRequest cookie (Some \<lparr>query = q, headers = Some h, body = b\<rparr>) cfg
         = Inr (JString (split a CHR '' '' ! 1))"
proof -
  have cond: "bearer_condition (JString a) = Inr True"
    using assms(2) sublist_bearer_space(1) [OF assms(2)] by (simp add: indexOf_sublist)
  have len: "1 < length (split a CHR '' '')"
    using split_second_field(1) [OF sublist_bearer_space(2) [OF assms(2)]] by simp
  show ?thesis
    using cond len assms(1)
    by (simp add: extractTokenFromRequest_def requestOrDefault_def member_or_null_def
        member_def element_def)
qed

text \<open>
  The first branch is passed over when the read of the authorization header finds
  nothing (no headers object; or no own property, under a name that objects do not
  inherit) or finds a string without the scheme followed by a space.
\<close>

lemma header_not_matching:
  assumes "\<forall>h. headers r = Some h \<longrightarrow>
             (h (authKey cfg) = None \<and> authKey cfg \<notin> set objectPrototypeKeys)
             \<or> (\<exists>a. h (authKey cfg) = Some a \<and> \<not> sublist (BEARER_SCHEME @ '' '') a)"
  shows "bearer_condition (member_or_null (headers r) (authKey cfg)) = Inr False"
proof (cases "headers r")
  case None
  then show ?thesis by (simp add: member_or_null_def)
next
  case (Some h)
  then show ?thesis
    using assms by (auto simp: member_or_null_def member_def indexOf_sublist)
qed

text \<open>
  Under a name that objects inherit, and without an own property, the read finds a
  function (or the prototype), and the condition of the first branch throws.
\<close>

lemma inherited_header_key_throws:
  assumes "h (authKey cfg) = None" and "authKey cfg \<in> set objectPrototypeKeys"
  shows "extractTokenFromRequest cookie (Some \<lparr>query = q, headers = Some h, body = b\<rparr>) cfg
         = Inl (TypeError ''indexOf'')"
  using assms
  by (simp add: extractTokenFromRequest_def requestOrDefault_def member_or_null_def member_def)

text \<open>
  The last two branches. With the first three conditions false, an empty or absent
  cookie header ends the call with \<open>null\<close>; a truthy one enters the cookie branch.
\<close>

lemma no_source_returns_null:
  assumes "bearer_condition (member_or_null (headers r) (authKey cfg)) = Inr False"
    and "\<not> truthy (member_or_null (body r) ACCESS_TOKEN_PARAMETER)"
    and "\<not> truthy (member_or_null (query r) ACCESS_TOKEN_PARAMETER)"
    and "\<not> truthy (member_or_null (headers r) (cookieKey cfg))"
  shows "extractTokenFromRequest cookie (Some r) cfg = Inr JNull"
  using assms by (simp add: extractTokenFromRequest_def requestOrDefault_def)

lemma cookie_branch_reached:
  assumes "bearer_condition (member_or_null (headers r) (authKey cfg)) = Inr False"
    and "\<not> truthy (member_or_null (body r) ACCESS_TOKEN_PARAMETER)"
    and "\<not> truthy (member_or_null (query r) ACCESS_TOKEN_PARAMETER)"
    and "truthy (member_or_null (headers r) (cookieKey cfg))"
  shows "extractTokenFromRequest cookie (Some r) cfg
         = cookieBranch cookie (member_or_null (headers r) (cookieKey cfg))"
  using assms by (simp add: extractTokenFromRequest_def requestOrDefault_def)

text \<open>
  What the cookie branch does once entered: without a binding of \<open>cookie\<close> it throws;
  with a parser bound it returns a non-empty \<open>access_token\<close> cookie, and \<open>undefined\<close>
  when the parsed object has none or an empty one.
\<close>

lemma cookieBranch_unbound: "cookieBranch None cookieHeader = Inl (ReferenceError ''cookie'')"
  by simp

lemma cookieBranch_bound_token:
  assumes "parse v = Inr cookies" and "cookies ''access_token'' = Some t" and "t \<noteq> []"
  shows "cookieBranch (Some parse) v = Inr (JString t)"
  using assms by (simp add: member_def ACCESS_TOKEN_PARAMETER_def)

lemma cookieBranch_bound_no_token:
  assumes "parse v = Inr cookies"
    and "cookies ''access_token'' = None \<or> cookies ''access_token'' = Some []"
  shows "cookieBranch (Some parse) v = Inr JUndefined"
  using assms by (auto simp: member_def ACCESS_TOKEN_PARAMETER_def objectPrototypeKeys_def)

lemmas request_defs = extractTokenFromRequest_def requestOrDefault_def authKey_def
  cookieKey_def member_or_null_def member_def element_def indexOf_def
  objectPrototypeKeys_def
  BEARER_SCHEME_def AUTHORIZATION_HEADER_def COOKIE_HEADER_def ACCESS_TOKEN_PARAMETER_def

section \<open>The properties of the specification\<close>

subsection \<open>Errors raised by the function\<close>

text \<open>
  C1. The specification says that the function raises no error itself, and that a request
  whose cookie header is present, while the header, body and query checks fail, completes
  with an absent result. The cookie branch evaluates the identifier \<open>cookie\<close>, which the
  module never binds. For the request with headers
  \<open>{Authorization: "Basic abc", Cookie: "sid=1"}\<close> and no configuration the call
  therefore throws a \<open>ReferenceError\<close> instead of returning.
\<close>

theorem cookie_header_raises_reference_error:
  "extractTokenFromRequest None
     (Some \<lparr>query = None,
            headers = Some [''Authorization'' \<mapsto> ''Basic abc'', ''Cookie'' \<mapsto> ''sid=1''],
            body = None\<rparr>)
     None
   = Inl (ReferenceError ''cookie'')"
  by (simp add: request_defs)

subsection \<open>The cookie source\<close>

text \<open>
  C2. The specification says that with empty headers, body and query and the header
  \<open>Cookie: "access_token=tok3; other=x"\<close> the call returns \<open>"tok3"\<close>. On that request
  the call reaches \<open>cookie.parse\<close> and throws the \<open>ReferenceError\<close> of C1: no cookie
  is ever parsed.
\<close>

theorem cookie_token_example_raises_reference_error:
  "extractTokenFromRequest None
     (Some \<lparr>query = Some Map.empty,
            headers = Some [''Cookie'' \<mapsto> ''access_token=tok3; other=x''],
            body = Some Map.empty\<rparr>)
     None
   = Inl (ReferenceError ''cookie'')"
  by (simp add: request_defs)

subsection \<open>Precedence of the header\<close>

text \<open>
  C3. When the value of the authorization header contains \<open>"Bearer "\<close>, the call returns
  the header's token, element 1 of the value split at spaces, whatever the body, the
  query, the other headers (the cookie header among them) and the binding of \<open>cookie\<close>
  are: the result is that of the request that carries the authorization header alone.
\<close>

theorem header_token_precedes_all:
  assumes "h (authKey cfg) = Some a" and "sublist ''Bearer '' a"
  shows "extractTokenFromRequest cookie (Some \<lparr>query = q, headers = Some h, body = b\<rparr>) cfg
         = Inr (JString (split a CHR '' '' ! 1))
       \<and> extractTokenFromRequest cookie (Some \<lparr>query = q, headers = Some h, body = b\<rparr>) cfg
         = extractTokenFromRequest None
             (Some \<lparr>query = None, headers = Some [authKey cfg \<mapsto> a], body = None\<rparr>) cfg"
proof -
  have s: "sublist (BEARER_SCHEME @ '' '') a" using assms(2) by (simp add: BEARER_SCHEME_def)
  have "[authKey cfg \<mapsto> a] (authKey cfg) = Some a" by simp
  from header_branch [of h cfg a cookie q b, OF assms(1) s]
    header_branch [of "[authKey cfg \<mapsto> a]" cfg a None None None, OF this s]
  show ?thesis by simp
qed

text \<open>
  C3 at a request with a token in all four places: header \<open>"Bearer abc123"\<close>, body
  \<open>tok1\<close>, query \<open>tok2\<close>, cookie \<open>tok3\<close>. The call returns \<open>"abc123"\<close>.
\<close>

theorem header_token_precedes_all_witness:
  "[''Authorization'' \<mapsto> ''Bearer abc123'', ''Cookie'' \<mapsto> ''access_token=tok3'']
     (authKey None) = Some ''Bearer abc123''
   \<and> sublist ''Bearer '' ''Bearer abc123''
   \<and> extractTokenFromRequest None
       (Some \<lparr>query = Some [''access_token'' \<mapsto> ''tok2''],
              headers = Some [''Authorization'' \<mapsto> ''Bearer abc123'',
                              ''Cookie'' \<mapsto> ''access_token=tok3''],
              body = Some [''access_token'' \<mapsto> ''tok1'']\<rparr>)
       None
     = Inr (JString ''abc123'')"
proof -
  have h: "[''Authorization'' \<mapsto> ''Bearer abc123'', ''Cookie'' \<mapsto> ''access_token=tok3'']
     (authKey None) = Some ''Bearer abc123''"
    by (simp add: authKey_def AUTHORIZATION_HEADER_def)
  have s: "sublist ''Bearer '' ''Bearer abc123''" by simp
  show ?thesis
    using h s
      header_token_precedes_all
        [of "[''Authorization'' \<mapsto> ''Bearer abc123'', ''Cookie'' \<mapsto> ''access_token=tok3'']"
          None "''Bearer abc123''" None "Some [''access_token'' \<mapsto> ''tok2'']"
          "Some [''access_token'' \<mapsto> ''tok1'']"]
    by simp
qed

subsection \<open>The field the header branch returns\<close>

text \<open>
  C4. When the value of the authorization header contains \<open>"Bearer "\<close>, the call returns
  the segment between the first and the second space of the value (up to the end of the
  value when it has one space only): drop everything before the first space, drop that
  space, keep everything before the next one.
\<close>

theorem header_yields_second_space_field:
  assumes "h (authKey cfg) = Some a" and "sublist ''Bearer '' a"
  shows "extractTokenFromRequest cookie (Some \<lparr>query = q, headers = Some h, body = b\<rparr>) cfg
         = Inr (JString (takeWhile (\<lambda>c. c \<noteq> CHR '' '')
                           (tl (dropWhile (\<lambda>c. c \<noteq> CHR '' '') a))))"
proof -
  have s: "sublist (BEARER_SCHEME @ '' '') a" using assms(2) by (simp add: BEARER_SCHEME_def)
  show ?thesis
    using header_branch [of h cfg a cookie q b, OF assms(1) s]
      split_second_field(2) [OF sublist_bearer_space(2) [OF s]]
    by simp
qed

text \<open>
  C4 at \<open>"Bearer abc123 extra"\<close>: the call returns \<open>"abc123"\<close>, not \<open>"abc123 extra"\<close>.
\<close>

theorem header_yields_second_space_field_witness:
  "[''Authorization'' \<mapsto> ''Bearer abc123 extra''] (authKey None) = Some ''Bearer abc123 extra''
   \<and> sublist ''Bearer '' ''Bearer abc123 extra''
   \<and> extractTokenFromRequest None
       (Some \<lparr>query = None, headers = Some [''Authorization'' \<mapsto> ''Bearer abc123 extra''],
              body = None\<rparr>) None
     = Inr (JString ''abc123'')
   \<and> extractTokenFromRequest None
       (Some \<lparr>query = None, headers = Some [''Authorization'' \<mapsto> ''Bearer abc123 extra''],
              body = None\<rparr>) None
     \<noteq> Inr (JString ''abc123 extra'')"
proof -
  have h: "[''Authorization'' \<mapsto> ''Bearer abc123 extra''] (authKey None)
           = Some ''Bearer abc123 extra''"
    by (simp add: authKey_def AUTHORIZATION_HEADER_def)
  have s: "sublist ''Bearer '' ''Bearer abc123 extra''" by simp
  show ?thesis
    using h s
      header_yields_second_space_field
        [of "[''Authorization'' \<mapsto> ''Bearer abc123 extra'']" None
          "''Bearer abc123 extra''" None None None]
    by simp
qed

subsection \<open>Precedence of the body over the query\<close>

text \<open>
  C5. When the authorization header is absent (the request has no headers object, or the
  read under the authorization key finds nothing: no own property, under a name that
  objects do not inherit) or its value does not contain \<open>"Bearer "\<close> (a header of another
  scheme, say), and the body carries a truthy \<open>access_token\<close>, the call returns the
  body's token, whatever the query holds. The default key \<open>"Authorization"\<close> is not an
  inherited name; under a configured key that is one, such as \<open>"constructor"\<close>, the read
  is not absent and the call throws (lemma \<open>inherited_header_key_throws\<close>).
\<close>

theorem body_token_precedes_query:
  assumes "\<forall>h. headers r = Some h \<longrightarrow>
             (h (authKey cfg) = None \<and> authKey cfg \<notin> set objectPrototypeKeys)
             \<or> (\<exists>a. h (authKey cfg) = Some a \<and> \<not> sublist ''Bearer '' a)"
    and "body r = Some b" and "b ''access_token'' = Some tb" and "tb \<noteq> []"
  shows "extractTokenFromRequest cookie (Some r) cfg = Inr (JString tb)"
proof -
  have "bearer_condition (member_or_null (headers r) (authKey cfg)) = Inr False"
    using assms(1) by (intro header_not_matching) (simp add: BEARER_SCHEME_def)
  moreover have "member_or_null (body r) ACCESS_TOKEN_PARAMETER = JString tb"
    using assms(2,3) by (simp add: member_or_null_def member_def ACCESS_TOKEN_PARAMETER_def)
  ultimately show ?thesis
    using assms(4) by (simp add: extractTokenFromRequest_def requestOrDefault_def)
qed

text \<open>
  C5 at two requests with body token \<open>tok1\<close> and query token \<open>tok2\<close>: one with the
  header \<open>Authorization: "Basic abc"\<close>, one with empty headers. Both calls return
  \<open>"tok1"\<close>.
\<close>

theorem body_token_precedes_query_witness:
  "[''Authorization'' \<mapsto> ''Basic abc''] (authKey None) = Some ''Basic abc''
   \<and> \<not> sublist ''Bearer '' ''Basic abc''
   \<and> extractTokenFromRequest None
       (Some \<lparr>query = Some [''access_token'' \<mapsto> ''tok2''],
              headers = Some [''Authorization'' \<mapsto> ''Basic abc''],
              body = Some [''access_token'' \<mapsto> ''tok1'']\<rparr>)
       None
     = Inr (JString ''tok1'')
   \<and> Map.empty (authKey None) = (None :: string option)
   \<and> authKey None \<notin> set objectPrototypeKeys
   \<and> extractTokenFromRequest None
       (Some \<lparr>query = Some [''access_token'' \<mapsto> ''tok2''],
              headers = Some Map.empty,
              body = Some [''access_token'' \<mapsto> ''tok1'']\<rparr>)
       None
     = Inr (JString ''tok1'')"
proof -
  let ?r = "\<lparr>query = Some [''access_token'' \<mapsto> ''tok2''],
             headers = Some [''Authorization'' \<mapsto> ''Basic abc''],
             body = Some [''access_token'' \<mapsto> ''tok1'']\<rparr>"
  let ?r' = "\<lparr>query = Some [''access_token'' \<mapsto> ''tok2''],
             headers = Some (Map.empty :: dict),
             body = Some [''access_token'' \<mapsto> ''tok1'']\<rparr>"
  have a: "[''Authorization'' \<mapsto> ''Basic abc''] (authKey None) = Some ''Basic abc''"
    by (simp add: authKey_def AUTHORIZATION_HEADER_def)
  have n: "\<not> sublist ''Bearer '' ''Basic abc''"
    by (simp add: sublist_Cons_right)
  have k: "authKey None \<notin> set objectPrototypeKeys"
    by (simp add: authKey_def AUTHORIZATION_HEADER_def objectPrototypeKeys_def)
  have h: "\<forall>h. headers ?r = Some h \<longrightarrow>
             (h (authKey None) = None \<and> authKey None \<notin> set objectPrototypeKeys)
             \<or> (\<exists>a. h (authKey None) = Some a \<and> \<not> sublist ''Bearer '' a)"
    using a n by auto
  have h': "\<forall>h. headers ?r' = Some h \<longrightarrow>
             (h (authKey None) = None \<and> authKey None \<notin> set objectPrototypeKeys)
             \<or> (\<exists>a. h (authKey None) = Some a \<and> \<not> sublist ''Bearer '' a)"
    using k by auto
  have b: "body ?r = Some [''access_token'' \<mapsto> ''tok1'']" by simp
  have b': "body ?r' = Some [''access_token'' \<mapsto> ''tok1'']" by simp
  have t: "[''access_token'' \<mapsto> ''tok1''] ''access_token'' = Some ''tok1''" by simp
  have e: "''tok1'' \<noteq> []" by simp
  show ?thesis
    using a n k body_token_precedes_query [OF h b t e, of None]
      body_token_precedes_query [OF h' b' t e, of None]
    by simp
qed

subsection \<open>No source yields a token\<close>

text \<open>
  C6. The specification says that the call returns an absent result whenever no source
  yields a token, also when the cookie header is present and carries no \<open>access_token\<close>.
  For the request with empty body and query and the header \<open>Cookie: "other=x"\<close> the call
  throws the \<open>ReferenceError\<close> of C1 instead. (With an absent or empty cookie header the
  call does return \<open>null\<close>: lemma \<open>no_source_returns_null\<close>.)
\<close>

theorem cookie_without_token_raises_reference_error:
  "extractTokenFromRequest None
     (Some \<lparr>query = Some Map.empty, headers = Some [''Cookie'' \<mapsto> ''other=x''],
            body = Some Map.empty\<rparr>)
     None
   = Inl (ReferenceError ''cookie'')"
  by (simp add: request_defs)

subsection \<open>The configured header keys\<close>



subsection \<open>\<open>"Bearer "\<close> inside the header value\<close>

text \<open>
  C9 as the specification states it, for every header value in which \<open>"Bearer "\<close> occurs
  but not at the start, fails when no space precedes that \<open>"Bearer "\<close>: in \<open>"xBearer y"\<close>
  the search string occurs at position 1, the second space-delimited field of the value
  is \<open>"y"\<close>, and that is the text that follows \<open>"Bearer "\<close>.
\<close>

theorem bearer_without_space_before_returns_following_text:
  "indexOf ''xBearer y'' ''Bearer '' = 1
   \<and> drop (1 + length ''Bearer '') ''xBearer y'' = ''y''
   \<and> extractTokenFromRequest None
       (Some \<lparr>query = None, headers = Some [''Authorization'' \<mapsto> ''xBearer y''],
              body = None\<rparr>) None
     = Inr (JString ''y'')"
  by (simp add: request_defs)

text \<open>
  C9, amended. For every header value in which \<open>"Bearer "\<close> occurs after an earlier space,
  \<open>f1 @ " " @ p' @ "Bearer " @ s\<close> with no space in \<open>f1\<close>, the header branch is entered
  and the call returns the second space-delimited field of the whole value: \<open>p' @ "Bearer"\<close>
  up to its first space. The field ends before the text \<open>s\<close> that follows \<open>"Bearer "\<close>
  begins and is the same whatever \<open>s\<close> is; the body, the query and the cookie header play
  no part.
\<close>

theorem bearer_after_space_second_field:
  assumes "h (authKey cfg) = Some (f1 @ CHR '' '' # p' @ ''Bearer '' @ s)"
    and "CHR '' '' \<notin> set f1"
  shows "extractTokenFromRequest cookie (Some \<lparr>query = q, headers = Some h, body = b\<rparr>) cfg
         = Inr (JString (takeWhile (\<lambda>c. c \<noteq> CHR '' '') (p' @ ''Bearer'')))"
proof -
  let ?a = "f1 @ CHR '' '' # p' @ ''Bearer '' @ s"
  have "sublist ''Bearer '' ((f1 @ CHR '' '' # p') @ ''Bearer '' @ s)" by (rule sublist_appendI)
  then have s: "sublist (BEARER_SCHEME @ '' '') ?a" by (simp add: BEARER_SCHEME_def)
  have r: "extractTokenFromRequest cookie (Some \<lparr>query = q, headers = Some h, body = b\<rparr>) cfg
           = Inr (JString (split ?a CHR '' '' ! 1))"
    using header_branch [of h cfg ?a cookie q b, OF assms(1) s] .
  have "split ?a CHR '' '' = f1 # split (p' @ ''Bearer '' @ s) CHR '' ''"
    using assms(2) by (rule split_append_sep)
  then have "split ?a CHR '' '' ! 1 = hd (split (p' @ ''Bearer '' @ s) CHR '' '')"
    using split_not_Nil [of "p' @ ''Bearer '' @ s" "CHR '' ''"] by (simp add: hd_conv_nth)
  also have "\<dots> = takeWhile (\<lambda>c. c \<noteq> CHR '' '') (p' @ ''Bearer '' @ s)"
    by (rule hd_split)
  also have "\<dots> = takeWhile (\<lambda>c. c \<noteq> CHR '' '') (p' @ ''Bearer'')"
    by (induction p') simp_all
  finally show ?thesis using r by simp
qed

text \<open>
  C9, amended, at \<open>"Basic x Bearer y"\<close> with a token in the body, in the query and in
  the cookie header as well: the call returns \<open>"x"\<close>.
\<close>

theorem bearer_after_space_second_field_witness:
  "[''Authorization'' \<mapsto> ''Basic x Bearer y'', ''Cookie'' \<mapsto> ''access_token=tok3'']
     (authKey None) = Some (''Basic'' @ CHR '' '' # ''x '' @ ''Bearer '' @ ''y'')
   \<and> CHR '' '' \<notin> set ''Basic''
   \<and> extractTokenFromRequest None
       (Some \<lparr>query = Some [''access_token'' \<mapsto> ''tok2''],
              headers = Some [''Authorization'' \<mapsto> ''Basic x Bearer y'',
                              ''Cookie'' \<mapsto> ''access_token=tok3''],
              body = Some [''access_token'' \<mapsto> ''tok1'']\<rparr>) None
     = Inr (JString ''x'')"
proof -
  have h: "[''Authorization'' \<mapsto> ''Basic x Bearer y'', ''Cookie'' \<mapsto> ''access_token=tok3'']
     (authKey None) = Some (''Basic'' @ CHR '' '' # ''x '' @ ''Bearer '' @ ''y'')"
    by (simp add: authKey_def AUTHORIZATION_HEADER_def)
  have n: "CHR '' '' \<notin> set ''Basic''" by simp
  show ?thesis
    using h n
      bearer_after_space_second_field
        [of "[''Authorization'' \<mapsto> ''Basic x Bearer y'', ''Cookie'' \<mapsto> ''access_token=tok3'']"
          None "''Basic''" "''x ''" "''y''" None "Some [''access_token'' \<mapsto> ''tok2'']"
          "Some [''access_token'' \<mapsto> ''tok1'']", OF h n]
    by simp
qed

subsection \<open>A doubled space after \<open>"Bearer"\<close>\<close>

text \<open>
  C10 as the specification states it, for every header value in which \<open>"Bearer "\<close> is
  followed at once by another space, fails when a space comes earlier in the value: in
  \<open>"x Bearer  tok"\<close> the search string \<open>"Bearer  "\<close> occurs (at position 2), and the
  call returns \<open>"Bearer"\<close>, the field between the first and the second space, not the
  empty string.
\<close>

theorem doubled_space_after_other_field:
  "indexOf ''x Bearer  tok'' ''Bearer  '' = 2
   \<and> extractTokenFromRequest None
       (Some \<lparr>query = None, headers = Some [''Authorization'' \<mapsto> ''x Bearer  tok''],
              body = None\<rparr>) None
     = Inr (JString ''Bearer'')
   \<and> extractTokenFromRequest None
       (Some \<lparr>query = None, headers = Some [''Authorization'' \<mapsto> ''x Bearer  tok''],
              body = None\<rparr>) None
     \<noteq> Inr (JString [])"
  by (simp add: request_defs)

text \<open>
  C10, amended. For every header value in which \<open>"Bearer "\<close> is followed at once by
  another space and no space precedes that \<open>"Bearer "\<close> (so for every value that starts
  with \<open>"Bearer  "\<close>), the call returns the empty string, whatever the body, the query and
  the cookie header hold: it does not go on to the later checks.
\<close>

theorem doubled_space_yields_empty_string:
  assumes "h (authKey cfg) = Some (p @ ''Bearer  '' @ s)" and "CHR '' '' \<notin> set p"
  shows "extractTokenFromRequest cookie (Some \<lparr>query = q, headers = Some h, body = b\<rparr>) cfg
         = Inr (JString [])"
proof -
  let ?a = "p @ ''Bearer  '' @ s"
  have "sublist ''Bearer '' (p @ ''Bearer '' @ (CHR '' '' # s))" by (rule sublist_appendI)
  then have s: "sublist (BEARER_SCHEME @ '' '') ?a" by (simp add: BEARER_SCHEME_def)
  have r: "extractTokenFromRequest cookie (Some \<lparr>query = q, headers = Some h, body = b\<rparr>) cfg
           = Inr (JString (split ?a CHR '' '' ! 1))"
    using header_branch [of h cfg ?a cookie q b, OF assms(1) s] .
  have "CHR '' '' \<notin> set (p @ ''Bearer'')" using assms(2) by simp
  then have "split ((p @ ''Bearer'') @ CHR '' '' # CHR '' '' # s) CHR '' ''
             = (p @ ''Bearer'') # split (CHR '' '' # s) CHR '' ''"
    by (rule split_append_sep)
  then have "split ?a CHR '' '' ! 1 = []" by simp
  then show ?thesis using r by simp
qed

text \<open>
  C10, amended, at \<open>"Bearer  tok"\<close> with a token in the body, in the query and in the
  cookie header as well: the call returns the empty string.
\<close>

theorem doubled_space_yields_empty_string_witness:
  "[''Authorization'' \<mapsto> ''Bearer  tok'', ''Cookie'' \<mapsto> ''access_token=tok3'']
     (authKey None) = Some ([] @ ''Bearer  '' @ ''tok'')
   \<and> CHR '' '' \<notin> set []
   \<and> extractTokenFromRequest None
       (Some \<lparr>query = Some [''access_token'' \<mapsto> ''tok2''],
              headers = Some [''Authorization'' \<mapsto> ''Bearer  tok'',
                              ''Cookie'' \<mapsto> ''access_token=tok3''],
              body = Some [''access_token'' \<mapsto> ''tok1'']\<rparr>)
       None
     = Inr (JString [])"
proof -
  have h: "[''Authorization'' \<mapsto> ''Bearer  tok'', ''Cookie'' \<mapsto> ''access_token=tok3'']
     (authKey None) = Some ([] @ ''Bearer  '' @ ''tok'')"
    by (simp add: authKey_def AUTHORIZATION_HEADER_def)
  have n: "CHR '' '' \<notin> set []" by simp
  show ?thesis
    using h n
      doubled_space_yields_empty_string
        [of "[''Authorization'' \<mapsto> ''Bearer  tok'', ''Cookie'' \<mapsto> ''access_token=tok3'']"
          None "[]" "''tok''" None "Some [''access_token'' \<mapsto> ''tok2'']"
          "Some [''access_token'' \<mapsto> ''tok1'']", OF h n]
    by simp
qed

end
